theory Spec2Isabelle
  imports Main "HOL-Library.Word"
begin

unbundle bit_operations_syntax

section \<open>UDP-over-TCP framing (transport/sudoku/uot.go)\<close>

text \<open>
  The theory embeds the address codec, the datagram framer and the packet adapter of
  \<^verbatim>\<open>transport/sudoku/uot.go\<close>. Go byte slices are lists of 8-bit words, Go strings
  are HOL strings (lists of 8-bit characters), \<^verbatim>\<open>uint16\<close> is a 16-bit word, and
  \<^verbatim>\<open>int\<close> is \<open>int\<close> (the lengths that occur stay far below the 64-bit range).
  An \<^verbatim>\<open>io.Reader\<close> is the list of bytes still to be delivered, followed by
  end-of-file; every reading function returns the reader it leaves behind.
\<close>

type_synonym byte = "8 word"
type_synonym uint16 = "16 word"

subsection \<open>Errors\<close>

datatype error =
    EOF                            \<comment> \<open>\<^verbatim>\<open>io.EOF\<close>\<close>
  | ErrUnexpectedEOF               \<comment> \<open>\<^verbatim>\<open>io.ErrUnexpectedEOF\<close>\<close>
  | ErrShortBuffer                 \<comment> \<open>\<^verbatim>\<open>io.ErrShortBuffer\<close>\<close>
  | NetError string                \<comment> \<open>an error value returned by package \<^verbatim>\<open>net\<close>\<close>
  | DomainTooLong                  \<comment> \<open>\<^verbatim>\<open>"domain too long"\<close>\<close>
  | UnknownAddressType byte        \<comment> \<open>\<^verbatim>\<open>"unknown address type: %d"\<close>\<close>
  | EncodeAddress error            \<comment> \<open>\<^verbatim>\<open>"encode address: %w"\<close>\<close>
  | AddressTooLong nat             \<comment> \<open>\<^verbatim>\<open>"address too long: %d"\<close>\<close>
  | PayloadTooLarge nat            \<comment> \<open>\<^verbatim>\<open>"payload too large: %d"\<close>\<close>
  | InvalidAddressLength int       \<comment> \<open>\<^verbatim>\<open>"invalid address length: %d"\<close>\<close>
  | InvalidPayloadLength int       \<comment> \<open>\<^verbatim>\<open>"invalid payload length: %d"\<close>\<close>
  | DecodeAddress error            \<comment> \<open>\<^verbatim>\<open>"decode address: %w"\<close>\<close>
  | AddressIsNil                   \<comment> \<open>\<^verbatim>\<open>"address is nil"\<close>\<close>
  | WriteError string              \<comment> \<open>an error value returned by the stream's \<^verbatim>\<open>Write\<close>\<close>

subsection \<open>Constants\<close>

definition UoTMagicByte :: byte where
  "UoTMagicByte = 0xEE"

definition uotVersion :: byte where
  "uotVersion = 0x01"

definition maxUoTPayload :: int where
  "maxUoTPayload = 64 * 1024"

definition IPv4len :: nat where
  "IPv4len = 4"

definition IPv6len :: nat where
  "IPv6len = 16"

subsection \<open>The standard library functions that the codec calls\<close>

text \<open>
  \<^verbatim>\<open>binary.BigEndian.PutUint16\<close> and \<^verbatim>\<open>binary.BigEndian.Uint16\<close>. The callers
  always pass a slice of two bytes.
\<close>

definition PutUint16 :: "uint16 \<Rightarrow> byte list" where
  "PutUint16 v = [ucast (drop_bit 8 v), ucast v]"

definition Uint16 :: "byte list \<Rightarrow> uint16" where
  "Uint16 b = (ucast (b ! 1)) OR (push_bit 8 (ucast (b ! 0)))"

text \<open>
  \<^verbatim>\<open>io.ReadFull(r, buf)\<close> with \<open>n = len(buf)\<close>: it fills the buffer or fails,
  with \<^verbatim>\<open>io.EOF\<close> when no byte was read and \<^verbatim>\<open>io.ErrUnexpectedEOF\<close> when the
  reader ended after some bytes; a failed read has consumed what was left.
\<close>

definition ReadFull :: "byte list \<Rightarrow> nat \<Rightarrow> (error + byte list) \<times> byte list" where
  "ReadFull r n =
     (if n \<le> length r then (Inr (take n r), drop n r)
      else if r = [] then (Inl EOF, [])
      else (Inl ErrUnexpectedEOF, []))"

text \<open>Conversions between a Go string and its bytes.\<close>

definition bytes_of_string :: "string \<Rightarrow> byte list" where
  "bytes_of_string s = map of_char s"

definition string_of_bytes :: "byte list \<Rightarrow> string" where
  "string_of_bytes b = map (\<lambda>x. char_of (unat x)) b"

text \<open>\<^verbatim>\<open>fmt.Sprint\<close> of an unsigned integer: its decimal digits.\<close>

fun FormatUint :: "nat \<Rightarrow> string" where
  "FormatUint n =
     (if n < 10 then [char_of (48 + n)]
      else FormatUint (n div 10) @ [char_of (48 + n mod 10)])"

declare FormatUint.simps [simp del]

definition Sprint :: "uint16 \<Rightarrow> string" where
  "Sprint v = FormatUint (unat v)"

text \<open>\<^verbatim>\<open>net.JoinHostPort\<close>: a host that contains a colon is put in brackets.\<close>

definition JoinHostPort :: "string \<Rightarrow> string \<Rightarrow> string" where
  "JoinHostPort host port =
     (if CHR '':'' \<in> set host then ''['' @ host @ '']:'' @ port
      else host @ '':'' @ port)"

text \<open>
  \<^verbatim>\<open>net.IP.To4\<close>: a 4-byte address is returned as it is, a 16-byte address with the
  IPv4-mapped prefix gives its last four bytes, anything else gives \<^verbatim>\<open>nil\<close>.
\<close>

definition To4 :: "byte list \<Rightarrow> byte list option" where
  "To4 ip =
     (if length ip = IPv4len then Some ip
      else if length ip = IPv6len \<and> take 10 ip = replicate 10 0
              \<and> ip ! 10 = 0xFF \<and> ip ! 11 = 0xFF
      then Some (drop 12 ip)
      else None)"

text \<open>
  The remaining functions of package \<^verbatim>\<open>net\<close> depend on the Go release and on the
  host's name service, so the codec takes them as parameters:
  \<^verbatim>\<open>net.SplitHostPort\<close>, \<^verbatim>\<open>net.LookupPort\<close> and \<^verbatim>\<open>net.ResolveUDPAddr\<close>
  (both with their network argument), \<^verbatim>\<open>net.ParseIP\<close> (\<open>None\<close> is \<^verbatim>\<open>nil\<close>)
  and \<^verbatim>\<open>net.IP.String\<close>.
\<close>

record UDPAddr =
  IP :: "byte list"
  Port :: int
  Zone :: string

record netlib =
  SplitHostPort :: "string \<Rightarrow> error + string \<times> string"
  LookupPort :: "string \<Rightarrow> string \<Rightarrow> error + int"
  ParseIP :: "string \<Rightarrow> byte list option"
  IP_String :: "byte list \<Rightarrow> string"
  ResolveUDPAddr :: "string \<Rightarrow> string \<Rightarrow> error + UDPAddr"

text \<open>
  An \<^verbatim>\<open>io.Writer\<close> is a state \<open>'w\<close> with its \<^verbatim>\<open>Write\<close> method, which returns
  the error (if any) and the new state.
\<close>

type_synonym 'w Writer = "'w \<Rightarrow> byte list \<Rightarrow> error option \<times> 'w"

subsection \<open>Preface\<close>

definition WritePreface :: "'w Writer \<Rightarrow> 'w \<Rightarrow> error option \<times> 'w" where
  "WritePreface wr w = wr w [UoTMagicByte, uotVersion]"

subsection \<open>Address codec\<close>

definition encodeAddress :: "netlib \<Rightarrow> string \<Rightarrow> error + byte list" where
  "encodeAddress L rawAddr =
     (case SplitHostPort L rawAddr of
        Inl err \<Rightarrow> Inl err
      | Inr (host, portStr) \<Rightarrow>
         (case LookupPort L ''udp'' portStr of
            Inl err \<Rightarrow> Inl err
          | Inr portInt \<Rightarrow>
             (case
                (case ParseIP L host of
                   Some ip \<Rightarrow>
                     (case To4 ip of
                        Some ip4 \<Rightarrow> Inr ([0x01] @ ip4)
                      | None \<Rightarrow> Inr ([0x04] @ ip))
                 | None \<Rightarrow>
                     if length host > 255 then Inl DomainTooLong
                     else Inr ([0x03] @ [of_nat (length host)] @ bytes_of_string host))
              of
                Inl err \<Rightarrow> Inl err
              | Inr buf \<Rightarrow> Inr (buf @ PutUint16 (word_of_int portInt)))))"

definition decodeAddress :: "netlib \<Rightarrow> byte list \<Rightarrow> (error + string) \<times> byte list" where
  "decodeAddress L r =
     (case ReadFull r 1 of
        (Inl err, r1) \<Rightarrow> (Inl err, r1)
      | (Inr atyp, r1) \<Rightarrow>
         if atyp ! 0 = 0x01 then
           (case ReadFull r1 IPv4len of
              (Inl err, r2) \<Rightarrow> (Inl err, r2)
            | (Inr ipBuf, r2) \<Rightarrow>
               (case ReadFull r2 2 of
                  (Inl err, r3) \<Rightarrow> (Inl err, r3)
                | (Inr portBuf, r3) \<Rightarrow>
                    (Inr (JoinHostPort (IP_String L ipBuf) (Sprint (Uint16 portBuf))), r3)))
         else if atyp ! 0 = 0x04 then
           (case ReadFull r1 IPv6len of
              (Inl err, r2) \<Rightarrow> (Inl err, r2)
            | (Inr ipBuf, r2) \<Rightarrow>
               (case ReadFull r2 2 of
                  (Inl err, r3) \<Rightarrow> (Inl err, r3)
                | (Inr portBuf, r3) \<Rightarrow>
                    (Inr (JoinHostPort (IP_String L ipBuf) (Sprint (Uint16 portBuf))), r3)))
         else if atyp ! 0 = 0x03 then
           (case ReadFull r1 1 of
              (Inl err, r2) \<Rightarrow> (Inl err, r2)
            | (Inr lengthBuf, r2) \<Rightarrow>
               (case ReadFull r2 (unat (lengthBuf ! 0)) of
                  (Inl err, r3) \<Rightarrow> (Inl err, r3)
                | (Inr hostBuf, r3) \<Rightarrow>
                   (case ReadFull r3 2 of
                      (Inl err, r4) \<Rightarrow> (Inl err, r4)
                    | (Inr portBuf, r4) \<Rightarrow>
                        (Inr (JoinHostPort (string_of_bytes hostBuf) (Sprint (Uint16 portBuf))),
                         r4))))
         else (Inl (UnknownAddressType (atyp ! 0)), r1))"

subsection \<open>Datagram framer\<close>

definition WriteDatagram ::
  "netlib \<Rightarrow> 'w Writer \<Rightarrow> 'w \<Rightarrow> string \<Rightarrow> byte list \<Rightarrow> error option \<times> 'w" where
  "WriteDatagram L wr w addr payload =
     (case encodeAddress L addr of
        Inl err \<Rightarrow> (Some (EncodeAddress err), w)
      | Inr addrBuf \<Rightarrow>
         if length addrBuf = 0 \<or> int (length addrBuf) > maxUoTPayload
         then (Some (AddressTooLong (length addrBuf)), w)
         else if int (length payload) > maxUoTPayload
         then (Some (PayloadTooLarge (length payload)), w)
         else
           let header = PutUint16 (of_nat (length addrBuf)) @ PutUint16 (of_nat (length payload))
           in (case wr w header of
                 (Some err, w1) \<Rightarrow> (Some err, w1)
               | (None, w1) \<Rightarrow>
                  (case wr w1 addrBuf of
                     (Some err, w2) \<Rightarrow> (Some err, w2)
                   | (None, w2) \<Rightarrow> wr w2 payload)))"

definition ReadDatagram ::
  "netlib \<Rightarrow> byte list \<Rightarrow> (error + string \<times> byte list) \<times> byte list" where
  "ReadDatagram L r =
     (case ReadFull r 4 of
        (Inl err, r1) \<Rightarrow> (Inl err, r1)
      | (Inr header, r1) \<Rightarrow>
         let addrLen = uint (Uint16 (take 2 header));
             payloadLen = uint (Uint16 (drop 2 header))
         in if addrLen \<le> 0 \<or> addrLen > maxUoTPayload
            then (Inl (InvalidAddressLength addrLen), r1)
            else if payloadLen < 0 \<or> payloadLen > maxUoTPayload
            then (Inl (InvalidPayloadLength payloadLen), r1)
            else
              (case ReadFull r1 (nat addrLen) of
                 (Inl err, r2) \<Rightarrow> (Inl err, r2)
               | (Inr addrBuf, r2) \<Rightarrow>
                  (case fst (decodeAddress L addrBuf) of
                     Inl err \<Rightarrow> (Inl (DecodeAddress err), r2)
                   | Inr addr \<Rightarrow>
                      (case ReadFull r2 (nat payloadLen) of
                         (Inl err, r3) \<Rightarrow> (Inl err, r3)
                       | (Inr payload, r3) \<Rightarrow> (Inr (addr, payload), r3)))))"

subsection \<open>Packet adapter\<close>

text \<open>
  The connection holds the bytes that the peer has sent and that are not read yet
  (\<open>rx\<close>) and the state of the writing side (\<open>tx\<close>). The adapter's mutex has no
  counterpart in this sequential model. The debug log is the list of the discarded
  addresses with the resolver's error, passed through \<open>ReadFrom\<close>.
\<close>

record 'w Conn =
  rx :: "byte list"
  tx :: 'w

record 'w UoTPacketConn =
  conn :: "'w Conn"

definition NewUoTPacketConn :: "'w Conn \<Rightarrow> 'w UoTPacketConn" where
  "NewUoTPacketConn c = \<lparr>conn = c\<rparr>"

definition set_rx :: "'w UoTPacketConn \<Rightarrow> byte list \<Rightarrow> 'w UoTPacketConn" where
  "set_rx c r = c\<lparr>conn := (conn c)\<lparr>rx := r\<rparr>\<rparr>"

definition set_tx :: "'w UoTPacketConn \<Rightarrow> 'w \<Rightarrow> 'w UoTPacketConn" where
  "set_tx c w = c\<lparr>conn := (conn c)\<lparr>tx := w\<rparr>\<rparr>"

text \<open>The builtin \<^verbatim>\<open>copy(dst, src)\<close>: the new contents of \<open>dst\<close>.\<close>

definition copy :: "byte list \<Rightarrow> byte list \<Rightarrow> byte list" where
  "copy dst src = take (length dst) src @ drop (length src) dst"

type_synonym debuglog = "(string \<times> error) list"

lemma ReadFull_length:
  "ReadFull r n = (res, r') \<Longrightarrow> length r' \<le> length r"
  by (auto simp: ReadFull_def split: if_splits)

lemma ReadFull_Inr:
  "ReadFull r n = (Inr b, r') \<longleftrightarrow> n \<le> length r \<and> b = take n r \<and> r' = drop n r"
  by (auto simp: ReadFull_def)

lemma ReadDatagram_consumes:
  assumes "ReadDatagram L r = (Inr x, r')"
  shows "length r' < length r"
proof -
  from assms obtain r1 header where h: "ReadFull r 4 = (Inr header, r1)"
    by (auto simp: ReadDatagram_def split: prod.splits sum.splits)
  then have 1: "length r1 + 4 = length r"
    by (auto simp: ReadFull_Inr)
  from assms h obtain res r2 where "ReadFull r1 (nat (uint (Uint16 (take 2 header)))) = (res, r2)"
    and le: "length r' \<le> length r2"
    by (auto simp: ReadDatagram_def Let_def split: prod.splits sum.splits if_splits
        dest: ReadFull_length)
  then have "length r2 \<le> length r1"
    by (auto dest: ReadFull_length)
  with 1 le show ?thesis by simp
qed

function ReadFrom ::
  "netlib \<Rightarrow> debuglog \<Rightarrow> 'w UoTPacketConn \<Rightarrow> byte list
     \<Rightarrow> (error + nat \<times> UDPAddr) \<times> byte list \<times> 'w UoTPacketConn \<times> debuglog" where
  "ReadFrom L lg c p =
     (case ReadDatagram L (rx (conn c)) of
        (Inl err, r') \<Rightarrow> (Inl err, p, set_rx c r', lg)
      | (Inr (addrStr, payload), r') \<Rightarrow>
         if length payload > length p then (Inl ErrShortBuffer, p, set_rx c r', lg)
         else
           (case ResolveUDPAddr L ''udp'' addrStr of
              Inl err \<Rightarrow> ReadFrom L (lg @ [(addrStr, err)]) (set_rx c r') p
            | Inr udpAddr \<Rightarrow>
                (Inr (length payload, udpAddr), copy p payload, set_rx c r', lg)))"
  by pat_completeness auto
termination
  by (relation "measure (\<lambda>(L, lg, c, p). length (rx (conn c)))")
     (auto simp: set_rx_def dest: ReadDatagram_consumes [OF sym])

declare ReadFrom.simps [simp del]

definition WriteTo ::
  "netlib \<Rightarrow> 'w Writer \<Rightarrow> 'w UoTPacketConn \<Rightarrow> byte list \<Rightarrow> string option
     \<Rightarrow> (error + nat) \<times> 'w UoTPacketConn" where
  "WriteTo L wr c p addr =
     (case addr of
        None \<Rightarrow> (Inl AddressIsNil, c)
      | Some a \<Rightarrow>
         (case WriteDatagram L wr (tx (conn c)) a p of
            (Some err, w') \<Rightarrow> (Inl err, set_tx c w')
          | (None, w') \<Rightarrow> (Inr (length p), set_tx c w')))"

subsection \<open>An instance of the library without a name service\<close>

text \<open>
  The examples below run the codec on one instance of the library parameters. It splits
  an address as \<^verbatim>\<open>net.SplitHostPort\<close> does, reads a port as a plain decimal number
  up to 65535 (the empty string is port 0), knows IP literals in dotted-decimal IPv4 only
  and has no name service, so a host that is no such literal does not resolve. The
  writer is a byte buffer that appends and never fails.
\<close>

fun IndexByte :: "string \<Rightarrow> char \<Rightarrow> nat option" where
  "IndexByte [] c = None"
| "IndexByte (x # xs) c = (if x = c then Some 0 else map_option Suc (IndexByte xs c))"

definition LastIndexByte :: "string \<Rightarrow> char \<Rightarrow> nat option" where
  "LastIndexByte s c = map_option (\<lambda>k. length s - 1 - k) (IndexByte (rev s) c)"

definition std_SplitHostPort :: "string \<Rightarrow> error + string \<times> string" where
  "std_SplitHostPort hostport =
     (case LastIndexByte hostport CHR '':'' of
        None \<Rightarrow> Inl (NetError ''missing port in address'')
      | Some i \<Rightarrow>
         (case
            (if hostport ! 0 = CHR ''['' then
               (case IndexByte hostport CHR '']'' of
                  None \<Rightarrow> Inl (NetError ''missing ] in address'')
                | Some e \<Rightarrow>
                   if e + 1 = length hostport then Inl (NetError ''missing port in address'')
                   else if e + 1 = i then Inr (take (e - 1) (drop 1 hostport), 1, e + 1)
                   else if hostport ! (e + 1) = CHR '':''
                   then Inl (NetError ''too many colons in address'')
                   else Inl (NetError ''missing port in address''))
             else if IndexByte (take i hostport) CHR '':'' \<noteq> None
             then Inl (NetError ''too many colons in address'')
             else Inr (take i hostport, 0, 0))
          of
            Inl err \<Rightarrow> Inl err
          | Inr (host, j, k) \<Rightarrow>
             if IndexByte (drop j hostport) CHR ''['' \<noteq> None
             then Inl (NetError ''unexpected [ in address'')
             else if IndexByte (drop k hostport) CHR '']'' \<noteq> None
             then Inl (NetError ''unexpected ] in address'')
             else Inr (host, drop (i + 1) hostport)))"

definition digit :: "char \<Rightarrow> nat option" where
  "digit c = IndexByte ''0123456789'' c"

definition is_digit :: "char \<Rightarrow> bool" where
  "is_digit c = (digit c \<noteq> None)"

definition atoi :: "string \<Rightarrow> nat" where
  "atoi s = foldl (\<lambda>n c. 10 * n + (case digit c of Some d \<Rightarrow> d | None \<Rightarrow> 0)) 0 s"

definition std_LookupPort :: "string \<Rightarrow> string \<Rightarrow> error + int" where
  "std_LookupPort network service =
     (if list_all is_digit service \<and> atoi service \<le> 65535 then Inr (int (atoi service))
      else Inl (NetError ''unknown port''))"

fun dotted_fields :: "char \<Rightarrow> string \<Rightarrow> string list" where
  "dotted_fields c [] = [[]]"
| "dotted_fields c (x # xs) =
     (if x = c then [] # dotted_fields c xs
      else (case dotted_fields c xs of [] \<Rightarrow> [[x]] | y # ys \<Rightarrow> (x # y) # ys))"

definition octet :: "string \<Rightarrow> bool" where
  "octet s = (s \<noteq> [] \<and> length s \<le> 3 \<and> list_all is_digit s
              \<and> (length s = 1 \<or> s ! 0 \<noteq> CHR ''0'') \<and> atoi s \<le> 255)"

definition std_ParseIP :: "string \<Rightarrow> byte list option" where
  "std_ParseIP s =
     (case dotted_fields CHR ''.'' s of
        [a, b, c, d] \<Rightarrow>
          if octet a \<and> octet b \<and> octet c \<and> octet d
          then Some (replicate 10 0 @ [0xFF, 0xFF]
                     @ [of_nat (atoi a), of_nat (atoi b), of_nat (atoi c), of_nat (atoi d)])
          else None
      | _ \<Rightarrow> None)"

definition std_IP_String :: "byte list \<Rightarrow> string" where
  "std_IP_String ip =
     (case To4 ip of
        Some [a, b, c, d] \<Rightarrow>
          FormatUint (unat a) @ ''.'' @ FormatUint (unat b) @ ''.''
          @ FormatUint (unat c) @ ''.'' @ FormatUint (unat d)
      | _ \<Rightarrow> ''?'')"

definition std_ResolveUDPAddr :: "string \<Rightarrow> string \<Rightarrow> error + UDPAddr" where
  "std_ResolveUDPAddr network address =
     (case std_SplitHostPort address of
        Inl err \<Rightarrow> Inl err
      | Inr (host, service) \<Rightarrow>
         (case std_LookupPort network service of
            Inl err \<Rightarrow> Inl err
          | Inr port \<Rightarrow>
             (case std_ParseIP host of
                Some ip \<Rightarrow> Inr \<lparr>IP = ip, Port = port, Zone = []\<rparr>
              | None \<Rightarrow> Inl (NetError ''no such host''))))"

definition stdnet :: netlib where
  "stdnet = \<lparr>SplitHostPort = std_SplitHostPort, LookupPort = std_LookupPort,
             ParseIP = std_ParseIP, IP_String = std_IP_String,
             ResolveUDPAddr = std_ResolveUDPAddr\<rparr>"

definition buffer_Write :: "byte list Writer" where
  "buffer_Write w b = (None, w @ b)"

text \<open>
  Two frames for the examples: a datagram with payload \<open>7, 8, 9\<close> for the domain name
  \<^verbatim>\<open>x.invalid\<close>, port 1, and a datagram with payload \<open>10, 11\<close> for
  \<^verbatim>\<open>1.2.3.4\<close>, port 5.
\<close>

definition frame_invalid :: "byte list" where
  "frame_invalid =
     [0, 13, 0, 3, 3, 9, 120, 46, 105, 110, 118, 97, 108, 105, 100, 0, 1, 7, 8, 9]"

definition frame_ok :: "byte list" where
  "frame_ok = [0, 7, 0, 2, 1, 1, 2, 3, 4, 0, 5, 10, 11]"

section \<open>Basic facts\<close>

subsection \<open>Words and bytes\<close>

lemma Uint16_PutUint16: "Uint16 (PutUint16 v) = v"
  unfolding Uint16_def PutUint16_def
  by (simp, rule bit_word_eqI) (auto simp: bit_simps)

lemma uint_Uint16_bound: "uint (Uint16 b) \<le> 65535"
  using uint_bounded [of "Uint16 b"] by simp

lemma PutUint16_length: "length (PutUint16 v) = 2"
  by (simp add: PutUint16_def)

lemma PutUint16_bytes: "PutUint16 (word_of_int n) = [of_int (n div 256), of_int n]"
proof -
  have 1: "n div 256 = drop_bit 8 n"
    by (simp add: drop_bit_eq_div)
  have "(ucast (drop_bit 8 (word_of_int n :: uint16)) :: byte) = of_int (n div 256)"
    unfolding 1 by (rule bit_word_eqI) (auto simp: bit_simps)
  moreover have "(ucast (word_of_int n :: uint16) :: byte) = of_int n"
    by (rule bit_word_eqI) (auto simp: bit_simps)
  ultimately show ?thesis
    by (simp add: PutUint16_def)
qed

lemma string_of_bytes_of_string: "string_of_bytes (bytes_of_string s) = s"
proof -
  have "char_of (unat (of_char c :: byte)) = c" for c
  proof -
    have "unat (of_nat (of_char c) :: byte) = (of_char c :: nat)"
      by (simp add: unat_of_nat)
    then have "unat (of_char c :: byte) = (of_char c :: nat)"
      by (simp add: of_nat_of_char)
    then show ?thesis by simp
  qed
  then show ?thesis
    by (simp add: string_of_bytes_def bytes_of_string_def comp_def map_idI)
qed

lemma replicate_10: "replicate 10 x = [x, x, x, x, x, x, x, x, x, x]"
  by (simp add: numeral_eq_Suc)

lemma To4_length: "To4 ip = Some ip4 \<Longrightarrow> length ip4 = 4"
  by (auto simp: To4_def IPv4len_def IPv6len_def split: if_splits)

lemma encodeAddress_nonempty: "encodeAddress L addr = Inr addrBuf \<Longrightarrow> 0 < length addrBuf"
  by (auto simp: encodeAddress_def PutUint16_def split: sum.splits prod.splits)

subsection \<open>Reading\<close>

lemma ReadFull_error:
  "ReadFull r n = (Inl e, r') \<Longrightarrow> e = EOF \<or> e = ErrUnexpectedEOF"
  by (auto simp: ReadFull_def split: if_splits)

lemma ReadFull_append: "ReadFull (a @ r) (length a) = (Inr a, r)"
  by (simp add: ReadFull_def)

lemma ReadFull_PutUint16: "ReadFull (PutUint16 v @ r) 2 = (Inr (PutUint16 v), r)"
  using ReadFull_append [of "PutUint16 v" r] by (simp add: PutUint16_length)

lemma ReadFull_Cons: "ReadFull (x # r) (Suc 0) = (Inr [x], r)"
  by (simp add: ReadFull_def)

subsection \<open>The address codec: decoding what was encoded\<close>

lemma decodeAddress_ipv4:
  "length ip4 = 4 \<Longrightarrow>
   decodeAddress L ([0x01] @ ip4 @ PutUint16 v @ r)
   = (Inr (JoinHostPort (IP_String L ip4) (Sprint v)), r)"
  using ReadFull_append [of ip4 "PutUint16 v @ r"]
  by (simp add: decodeAddress_def ReadFull_Cons ReadFull_PutUint16 Uint16_PutUint16 IPv4len_def)

lemma decodeAddress_ipv6:
  "length ip = 16 \<Longrightarrow>
   decodeAddress L ([0x04] @ ip @ PutUint16 v @ r)
   = (Inr (JoinHostPort (IP_String L ip) (Sprint v)), r)"
  using ReadFull_append [of ip "PutUint16 v @ r"]
  by (simp add: decodeAddress_def ReadFull_Cons ReadFull_PutUint16 Uint16_PutUint16 IPv6len_def)

lemma decodeAddress_domain:
  assumes "length host \<le> 255"
  shows "decodeAddress L ([0x03, of_nat (length host)] @ bytes_of_string host @ PutUint16 v @ r)
         = (Inr (JoinHostPort host (Sprint v)), r)"
proof -
  have 1: "unat (of_nat (length host) :: byte) = length host"
    using assms by (simp add: unat_of_nat)
  have 2: "ReadFull (bytes_of_string host @ PutUint16 v @ r) (length host)
           = (Inr (bytes_of_string host), PutUint16 v @ r)"
    using ReadFull_append [of "bytes_of_string host" "PutUint16 v @ r"]
    by (simp add: bytes_of_string_def)
  show ?thesis
    by (simp add: decodeAddress_def ReadFull_Cons 1 2 ReadFull_PutUint16 Uint16_PutUint16
        string_of_bytes_of_string)
qed

text \<open>
  Decoding an encoded endpoint gives the host (the domain name as it was, an IP literal
  as \<^verbatim>\<open>net.IP.String\<close> prints its address) joined with the port in decimal,
  whenever \<^verbatim>\<open>net.ParseIP\<close> returns addresses of 16 bytes, as Go's does.
\<close>

lemma decodeAddress_encodeAddress:
  assumes "SplitHostPort L rawAddr = Inr (host, portStr)"
    and "LookupPort L ''udp'' portStr = Inr port"
    and "encodeAddress L rawAddr = Inr addrBuf"
    and "\<And>ip. ParseIP L host = Some ip \<Longrightarrow> length ip = 16"
  shows "decodeAddress L (addrBuf @ r)
         = (Inr (JoinHostPort
                  (case ParseIP L host of
                     None \<Rightarrow> host
                   | Some ip \<Rightarrow> (case To4 ip of Some ip4 \<Rightarrow> IP_String L ip4
                                | None \<Rightarrow> IP_String L ip))
                  (Sprint (word_of_int port))), r)"
proof (cases "ParseIP L host")
  case None
  with assms(1-3) have "length host \<le> 255"
    and "addrBuf = [0x03, of_nat (length host)] @ bytes_of_string host
                   @ PutUint16 (word_of_int port)"
    by (auto simp: encodeAddress_def split: if_splits)
  with None show ?thesis
    using decodeAddress_domain [of host L "word_of_int port" r] by simp
next
  case (Some ip)
  show ?thesis
  proof (cases "To4 ip")
    case None
    with Some assms(1-3) have "addrBuf = [0x04] @ ip @ PutUint16 (word_of_int port)"
      by (auto simp: encodeAddress_def)
    with Some None assms(4) show ?thesis
      using decodeAddress_ipv6 [of ip L "word_of_int port" r] by simp
  next
    case (Some ip4)
    with \<open>ParseIP L host = Some ip\<close> assms(1-3)
    have "addrBuf = [0x01] @ ip4 @ PutUint16 (word_of_int port)"
      by (auto simp: encodeAddress_def)
    with Some \<open>ParseIP L host = Some ip\<close> show ?thesis
      using decodeAddress_ipv4 [of ip4 L "word_of_int port" r] To4_length [of ip ip4] by simp
  qed
qed

subsection \<open>The framer on a byte buffer\<close>

lemma WriteDatagram_buffer:
  assumes "encodeAddress L addr = Inr addrBuf"
    and "length addrBuf \<le> 65536" and "length payload \<le> 65536"
  shows "WriteDatagram L buffer_Write w addr payload
         = (None, w @ PutUint16 (of_nat (length addrBuf))
                    @ PutUint16 (of_nat (length payload)) @ addrBuf @ payload)"
  using assms encodeAddress_nonempty [OF assms(1)]
  by (simp add: WriteDatagram_def maxUoTPayload_def buffer_Write_def)

lemma ReadDatagram_frame:
  assumes "0 < length addrBuf" and "length addrBuf < 65536"
    and "fst (decodeAddress L addrBuf) = Inr a"
    and "unat pl \<le> length r"
  shows "ReadDatagram L (PutUint16 (of_nat (length addrBuf)) @ PutUint16 pl @ addrBuf @ r)
         = (Inr (a, take (unat pl) r), drop (unat pl) r)"
proof -
  let ?al = "of_nat (length addrBuf) :: uint16"
  have al: "uint ?al = int (length addrBuf)"
    using assms(2) by (simp add: uint_nat unat_of_nat)
  have hd: "ReadFull (PutUint16 ?al @ PutUint16 pl @ addrBuf @ r) 4
            = (Inr (PutUint16 ?al @ PutUint16 pl), addrBuf @ r)"
    using ReadFull_append [of "PutUint16 ?al @ PutUint16 pl" "addrBuf @ r"]
    by (simp add: PutUint16_length)
  have pl: "uint pl \<le> 65535"
    using uint_bounded [of pl] by simp
  show ?thesis
    unfolding ReadDatagram_def hd
    using assms pl
    by (simp add: Let_def PutUint16_length Uint16_PutUint16 al maxUoTPayload_def ReadFull_def)
qed

text \<open>
  A payload shorter than 65536 bytes is read back as it was written, with the address
  that the decoder makes of the encoded endpoint.
\<close>

lemma WriteDatagram_ReadDatagram:
  assumes "encodeAddress L addr = Inr addrBuf"
    and "length addrBuf < 65536"
    and "fst (decodeAddress L addrBuf) = Inr a"
    and "length payload < 65536"
  shows "ReadDatagram L (snd (WriteDatagram L buffer_Write [] addr payload) @ r)
         = (Inr (a, payload), r)"
proof -
  have "unat (of_nat (length payload) :: uint16) = length payload"
    using assms(4) by (simp add: unat_of_nat)
  then show ?thesis
    using assms encodeAddress_nonempty [OF assms(1)]
      WriteDatagram_buffer [of L addr addrBuf payload "[]"]
      ReadDatagram_frame [of addrBuf L a "of_nat (length payload)" "payload @ r"]
    by simp
qed

subsection \<open>The receive loop\<close>

lemma rx_set_rx: "rx (conn (set_rx c r)) = r"
  by (simp add: set_rx_def)

lemma set_rx_set_rx: "set_rx (set_rx c r) r' = set_rx c r'"
  by (simp add: set_rx_def)

lemma ReadFrom_oversized:
  assumes "ReadDatagram L (rx (conn c)) = (Inr (addr, payload), r')"
    and "length p < length payload"
  shows "ReadFrom L lg c p = (Inl ErrShortBuffer, p, set_rx c r', lg)"
  using assms by (simp add: ReadFrom.simps)

lemma ReadFrom_discard:
  assumes "ReadDatagram L (rx (conn c)) = (Inr (addr, payload), r')"
    and "length payload \<le> length p"
    and "ResolveUDPAddr L ''udp'' addr = Inl e"
  shows "ReadFrom L lg c p = ReadFrom L (lg @ [(addr, e)]) (set_rx c r') p"
  using assms by (subst ReadFrom.simps) simp

lemma ReadFrom_deliver:
  assumes "ReadDatagram L (rx (conn c)) = (Inr (addr, payload), r')"
    and "length payload \<le> length p"
    and "ResolveUDPAddr L ''udp'' addr = Inr u"
  shows "ReadFrom L lg c p = (Inr (length payload, u), copy p payload, set_rx c r', lg)"
  using assms by (subst ReadFrom.simps) simp

subsection \<open>The library instance on plain inputs\<close>

lemma IndexByte_None: "IndexByte s c = None \<longleftrightarrow> c \<notin> set s"
  by (induction s) auto

lemma IndexByte_first: "c \<notin> set a \<Longrightarrow> IndexByte (a @ c # b) c = Some (length a)"
  by (induction a) auto

lemma LastIndexByte_last: "c \<notin> set b \<Longrightarrow> LastIndexByte (a @ c # b) c = Some (length a)"
  using IndexByte_first [of c "rev b" "rev a"] by (simp add: LastIndexByte_def)

lemma std_SplitHostPort_plain:
  assumes "set host \<inter> {CHR '':'', CHR ''['', CHR '']''} = {}"
    and "set port \<inter> {CHR '':'', CHR ''['', CHR '']''} = {}"
  shows "std_SplitHostPort (host @ CHR '':'' # port) = Inr (host, port)"
proof -
  have 1: "LastIndexByte (host @ CHR '':'' # port) CHR '':'' = Some (length host)"
    using assms(2) by (intro LastIndexByte_last) auto
  have 2: "(host @ CHR '':'' # port) ! 0 \<noteq> CHR ''[''"
    using assms(1) by (cases host) auto
  have 3: "IndexByte host CHR '':'' = None"
    using assms(1) by (simp add: IndexByte_None)
  have 4: "IndexByte (host @ CHR '':'' # port) CHR ''['' = None"
    "IndexByte (host @ CHR '':'' # port) CHR '']'' = None"
    using assms by (auto simp: IndexByte_None)
  show ?thesis
    by (simp add: std_SplitHostPort_def 1 2 3 4)
qed

lemma dotted_fields_single: "c \<notin> set s \<Longrightarrow> dotted_fields c s = [s]"
  by (induction s) auto

lemma std_ParseIP_no_dot: "CHR ''.'' \<notin> set s \<Longrightarrow> std_ParseIP s = None"
  by (simp add: std_ParseIP_def dotted_fields_single)

lemma std_LookupPort_53: "std_LookupPort ''udp'' ''53'' = Inr 53"
  by (simp add: std_LookupPort_def is_digit_def digit_def atoi_def)

lemma FormatUint_443: "FormatUint 443 = ''443''"
  by (simp add: FormatUint.simps char_of_def bit_Suc_0_iff)

lemma stdnet_example_SplitHostPort:
  "SplitHostPort stdnet ''93.184.216.34:443'' = Inr (''93.184.216.34'', ''443'')"
  by (simp add: stdnet_def std_SplitHostPort_def LastIndexByte_def)

lemma stdnet_example_LookupPort: "LookupPort stdnet ''udp'' ''443'' = Inr 443"
  by (simp add: stdnet_def std_LookupPort_def is_digit_def digit_def atoi_def)

lemma stdnet_example_ParseIP:
  "ParseIP stdnet ''93.184.216.34''
   = Some [0, 0, 0, 0, 0, 0, 0, 0, 0, 0, 0xFF, 0xFF, 93, 184, 216, 34]"
  by (simp add: stdnet_def std_ParseIP_def octet_def is_digit_def digit_def atoi_def
      replicate_10)

lemma stdnet_example_IP_String: "IP_String stdnet [93, 184, 216, 34] = ''93.184.216.34''"
  by (simp add: stdnet_def std_IP_String_def To4_def IPv4len_def FormatUint.simps char_of_def
      bit_Suc_0_iff)

lemma To4_example:
  "To4 [0, 0, 0, 0, 0, 0, 0, 0, 0, 0, 0xFF, 0xFF, 93, 184, 216, 34] = Some [93, 184, 216, 34]"
  by (simp add: To4_def IPv4len_def IPv6len_def replicate_10)

lemma stdnet_example_encodeAddress:
  "encodeAddress stdnet ''93.184.216.34:443'' = Inr [1, 93, 184, 216, 34, 1, 187]"
  by (simp add: encodeAddress_def stdnet_example_SplitHostPort stdnet_example_LookupPort
      stdnet_example_ParseIP To4_example PutUint16_def)

lemma stdnet_example_decodeAddress:
  "fst (decodeAddress stdnet [1, 93, 184, 216, 34, 1, 187]) = Inr ''93.184.216.34:443''"
  by (simp add: decodeAddress_def ReadFull_def IPv4len_def stdnet_example_IP_String
      FormatUint_443 Uint16_def Sprint_def JoinHostPort_def)

lemma stdnet_Resolve_invalid:
  "ResolveUDPAddr stdnet ''udp'' ''x.invalid:1'' = Inl (NetError ''no such host'')"
  by (simp add: stdnet_def std_ResolveUDPAddr_def std_SplitHostPort_def LastIndexByte_def
      std_LookupPort_def is_digit_def digit_def atoi_def std_ParseIP_def)

lemma stdnet_Resolve_ok:
  "ResolveUDPAddr stdnet ''udp'' ''1.2.3.4:5''
   = Inr \<lparr>IP = [0, 0, 0, 0, 0, 0, 0, 0, 0, 0, 0xFF, 0xFF, 1, 2, 3, 4], Port = 5, Zone = []\<rparr>"
  by (simp add: stdnet_def std_ResolveUDPAddr_def std_SplitHostPort_def LastIndexByte_def
      std_LookupPort_def is_digit_def digit_def atoi_def std_ParseIP_def octet_def replicate_10)

lemma ReadDatagram_frame_invalid:
  "ReadDatagram stdnet (frame_invalid @ r) = (Inr (''x.invalid:1'', [7, 8, 9]), r)"
  by (simp add: frame_invalid_def ReadDatagram_def ReadFull_def Uint16_def maxUoTPayload_def
      decodeAddress_def string_of_bytes_def char_of_def Sprint_def JoinHostPort_def
      FormatUint.simps bit_Suc_0_iff)

lemma ReadDatagram_frame_ok:
  "ReadDatagram stdnet (frame_ok @ r) = (Inr (''1.2.3.4:5'', [10, 11]), r)"
  by (simp add: frame_ok_def ReadDatagram_def ReadFull_def Uint16_def maxUoTPayload_def
      decodeAddress_def stdnet_def std_IP_String_def To4_def IPv4len_def char_of_def
      Sprint_def JoinHostPort_def FormatUint.simps bit_Suc_0_iff)

section \<open>The claims\<close>

subsection \<open>C1: writing a frame and reading it back\<close>

text \<open>
  Claim C1: for every valid endpoint and every payload of at most 65536 bytes, reading
  back what \<open>WriteDatagram\<close> wrote gives an equivalent endpoint and exactly the
  payload. Lemma \<open>WriteDatagram_ReadDatagram\<close> shows this for payloads shorter than 65536
  bytes. A payload of exactly 65536 bytes passes the size check of \<open>WriteDatagram\<close>
  (which refuses lengths above \<open>maxUoTPayload\<close> only), but its length does not fit the
  16-bit field of the header and is written as 0. The theorem states what the code does
  there, for every endpoint that encodes and decodes: the write succeeds, and reading the
  written bytes back returns the address with an empty payload and leaves the 65536
  payload bytes unread in the stream.
\<close>

theorem payload_65536_not_read_back:
  assumes "encodeAddress L addr = Inr addrBuf"
    and "length addrBuf < 65536"
    and "fst (decodeAddress L addrBuf) = Inr a"
    and "length payload = 65536"
  shows "fst (WriteDatagram L buffer_Write [] addr payload) = None
       \<and> ReadDatagram L (snd (WriteDatagram L buffer_Write [] addr payload))
         = (Inr (a, []), payload)"
proof -
  have "(of_nat (length payload) :: uint16) = 0"
    using assms(4) by simp
  then show ?thesis
    using assms encodeAddress_nonempty [OF assms(1)]
      WriteDatagram_buffer [of L addr addrBuf payload "[]"]
      ReadDatagram_frame [of addrBuf L a "of_nat (length payload)" "payload"]
    by simp
qed

theorem payload_65536_not_read_back_witness:
  "encodeAddress stdnet ''93.184.216.34:443'' = Inr [1, 93, 184, 216, 34, 1, 187]
   \<and> fst (decodeAddress stdnet [1, 93, 184, 216, 34, 1, 187]) = Inr ''93.184.216.34:443''
   \<and> length (replicate 65536 (0 :: byte)) = 65536
   \<and> fst (WriteDatagram stdnet buffer_Write [] ''93.184.216.34:443'' (replicate 65536 0))
       = None
   \<and> ReadDatagram stdnet
        (snd (WriteDatagram stdnet buffer_Write [] ''93.184.216.34:443'' (replicate 65536 0)))
       = (Inr (''93.184.216.34:443'', []), replicate 65536 0)"
  using payload_65536_not_read_back [OF stdnet_example_encodeAddress _
      stdnet_example_decodeAddress, of "replicate 65536 0"]
    stdnet_example_encodeAddress stdnet_example_decodeAddress
  by simp

subsection \<open>C2: the example frame\<close>

text \<open>
  Claim C2: \<open>WriteDatagram\<close> with the address \<^verbatim>\<open>93.184.216.34:443\<close> and the payload
  \<open>1, 2, 3\<close> writes exactly the 14 bytes
  \<^verbatim>\<open>00 07 00 03 01 5D B8 D8 22 01 BB 01 02 03\<close>, and \<open>ReadDatagram\<close> on these bytes
  returns that address and that payload without error. The hypotheses say what Go's
  \<^verbatim>\<open>net\<close> package returns on this address.
\<close>

theorem example_datagram:
  assumes "SplitHostPort L ''93.184.216.34:443'' = Inr (''93.184.216.34'', ''443'')"
    and "LookupPort L ''udp'' ''443'' = Inr 443"
    and "ParseIP L ''93.184.216.34''
         = Some [0, 0, 0, 0, 0, 0, 0, 0, 0, 0, 0xFF, 0xFF, 93, 184, 216, 34]"
    and "IP_String L [93, 184, 216, 34] = ''93.184.216.34''"
  shows "WriteDatagram L buffer_Write w ''93.184.216.34:443'' [1, 2, 3]
         = (None, w @ [0x00, 0x07, 0x00, 0x03, 0x01, 0x5D, 0xB8, 0xD8, 0x22, 0x01, 0xBB,
                       0x01, 0x02, 0x03])
       \<and> ReadDatagram L [0x00, 0x07, 0x00, 0x03, 0x01, 0x5D, 0xB8, 0xD8, 0x22, 0x01, 0xBB,
                          0x01, 0x02, 0x03]
         = (Inr (''93.184.216.34:443'', [1, 2, 3]), [])"
proof -
  have enc: "encodeAddress L ''93.184.216.34:443'' = Inr [1, 93, 184, 216, 34, 1, 187]"
    by (simp add: encodeAddress_def assms To4_example PutUint16_def)
  have wr: "WriteDatagram L buffer_Write w ''93.184.216.34:443'' [1, 2, 3]
            = (None, w @ [0, 7, 0, 3, 1, 93, 184, 216, 34, 1, 187, 1, 2, 3])"
    using WriteDatagram_buffer [OF enc, of "[1, 2, 3]" w] by (simp add: PutUint16_def)
  have dec: "fst (decodeAddress L [1, 93, 184, 216, 34, 1, 187]) = Inr ''93.184.216.34:443''"
    by (simp add: decodeAddress_def ReadFull_def IPv4len_def assms FormatUint_443 Uint16_def
        Sprint_def JoinHostPort_def)
  have rd: "ReadDatagram L [0, 7, 0, 3, 1, 93, 184, 216, 34, 1, 187, 1, 2, 3]
            = (Inr (''93.184.216.34:443'', [1, 2, 3]), [])"
    using ReadDatagram_frame [of "[1, 93, 184, 216, 34, 1, 187]" L "''93.184.216.34:443''" 3
        "[1, 2, 3]", OF _ _ dec]
    by (simp add: PutUint16_def)
  from wr rd show ?thesis by simp
qed

theorem example_datagram_witness:
  "WriteDatagram stdnet buffer_Write [] ''93.184.216.34:443'' [1, 2, 3]
   = (None, [0x00, 0x07, 0x00, 0x03, 0x01, 0x5D, 0xB8, 0xD8, 0x22, 0x01, 0xBB,
             0x01, 0x02, 0x03])
   \<and> ReadDatagram stdnet [0x00, 0x07, 0x00, 0x03, 0x01, 0x5D, 0xB8, 0xD8, 0x22, 0x01, 0xBB,
                           0x01, 0x02, 0x03]
     = (Inr (''93.184.216.34:443'', [1, 2, 3]), [])"
  using example_datagram [OF stdnet_example_SplitHostPort stdnet_example_LookupPort
      stdnet_example_ParseIP stdnet_example_IP_String, of "[]"]
  by simp

subsection \<open>C3: a frame with an unresolvable address is skipped\<close>

text \<open>
  Claim C3: on a stream holding a well-formed frame whose address does not resolve,
  followed by a well-formed frame whose address resolves, \<open>ReadFrom\<close> skips the first
  frame, logging it, and returns the payload length and the resolved address of the
  second. As stated this fails when the payload of the first frame is longer than the
  caller's buffer: \<open>ReadFrom\<close> compares the sizes before it resolves the address, and
  returns \<^verbatim>\<open>io.ErrShortBuffer\<close>. Here the first frame carries three bytes and the
  buffer has room for two, enough for the second frame.
\<close>

theorem ReadFrom_skip_counterexample:
  "ReadDatagram stdnet (frame_invalid @ frame_ok) = (Inr (''x.invalid:1'', [7, 8, 9]), frame_ok)
   \<and> ResolveUDPAddr stdnet ''udp'' ''x.invalid:1'' = Inl (NetError ''no such host'')
   \<and> ReadDatagram stdnet frame_ok = (Inr (''1.2.3.4:5'', [10, 11]), [])
   \<and> ResolveUDPAddr stdnet ''udp'' ''1.2.3.4:5''
       = Inr \<lparr>IP = [0, 0, 0, 0, 0, 0, 0, 0, 0, 0, 0xFF, 0xFF, 1, 2, 3, 4], Port = 5, Zone = []\<rparr>
   \<and> ReadFrom stdnet [] \<lparr>conn = \<lparr>rx = frame_invalid @ frame_ok, tx = ()\<rparr>\<rparr> [0, 0]
       = (Inl ErrShortBuffer, [0, 0], \<lparr>conn = \<lparr>rx = frame_ok, tx = ()\<rparr>\<rparr>, [])"
proof -
  have "ReadFrom stdnet [] \<lparr>conn = \<lparr>rx = frame_invalid @ frame_ok, tx = ()\<rparr>\<rparr> [0, 0]
        = (Inl ErrShortBuffer, [0, 0],
           set_rx \<lparr>conn = \<lparr>rx = frame_invalid @ frame_ok, tx = ()\<rparr>\<rparr> frame_ok, [])"
    by (rule ReadFrom_oversized [where addr = "''x.invalid:1''" and payload = "[7, 8, 9]"])
       (simp_all add: ReadDatagram_frame_invalid)
  then show ?thesis
    using ReadDatagram_frame_invalid [of frame_ok] ReadDatagram_frame_ok [of "[]"]
    by (simp add: stdnet_Resolve_invalid stdnet_Resolve_ok set_rx_def)
qed

text \<open>
  Claim C3 as amended: when, in addition, each of the two payloads fits the caller's
  buffer, \<open>ReadFrom\<close> logs the first address with the resolver's error and returns the
  length of the second payload and its resolved address, with the payload copied to the
  front of the buffer and both frames consumed.
\<close>

theorem ReadFrom_skips_unresolvable:
  assumes "ReadDatagram L (rx (conn c)) = (Inr (a1, pl1), r1)"
    and "ReadDatagram L r1 = (Inr (a2, pl2), r2)"
    and "ResolveUDPAddr L ''udp'' a1 = Inl e"
    and "ResolveUDPAddr L ''udp'' a2 = Inr u"
    and "length pl1 \<le> length p" and "length pl2 \<le> length p"
  shows "ReadFrom L lg c p
         = (Inr (length pl2, u), copy p pl2, set_rx c r2, lg @ [(a1, e)])"
proof -
  have "ReadFrom L lg c p = ReadFrom L (lg @ [(a1, e)]) (set_rx c r1) p"
    using assms(1,5,3) by (rule ReadFrom_discard)
  also have "\<dots> = (Inr (length pl2, u), copy p pl2, set_rx (set_rx c r1) r2, lg @ [(a1, e)])"
    using assms(2,6,4) by (intro ReadFrom_deliver) (simp_all add: rx_set_rx)
  finally show ?thesis by (simp add: set_rx_set_rx)
qed

theorem ReadFrom_skips_unresolvable_witness:
  "ReadFrom stdnet [] \<lparr>conn = \<lparr>rx = frame_invalid @ frame_ok, tx = ()\<rparr>\<rparr> [0, 0, 0, 0]
   = (Inr (2, \<lparr>IP = [0, 0, 0, 0, 0, 0, 0, 0, 0, 0, 0xFF, 0xFF, 1, 2, 3, 4], Port = 5,
               Zone = []\<rparr>),
      [10, 11, 0, 0], \<lparr>conn = \<lparr>rx = [], tx = ()\<rparr>\<rparr>,
      [(''x.invalid:1'', NetError ''no such host'')])"
proof -
  let ?c = "\<lparr>conn = \<lparr>rx = frame_invalid @ frame_ok, tx = ()\<rparr>\<rparr>"
  have 1: "ReadDatagram stdnet (rx (conn ?c)) = (Inr (''x.invalid:1'', [7, 8, 9]), frame_ok)"
    by (simp add: ReadDatagram_frame_invalid)
  have 2: "ReadDatagram stdnet frame_ok = (Inr (''1.2.3.4:5'', [10, 11]), [])"
    using ReadDatagram_frame_ok [of "[]"] by simp
  show ?thesis
    using ReadFrom_skips_unresolvable [OF 1 2 stdnet_Resolve_invalid stdnet_Resolve_ok,
        of "[0, 0, 0, 0]" "[]"]
    by (simp add: copy_def set_rx_def)
qed

subsection \<open>C4: a payload larger than the caller's buffer\<close>

text \<open>
  Claim C4: when the payload of the frame that \<open>ReadFrom\<close> reads is strictly larger than
  the caller's buffer, \<open>ReadFrom\<close> returns the short-buffer error, leaves the buffer as
  it was, and does not continue the receive loop: the stream has advanced by exactly
  this frame and nothing has been logged.
\<close>

theorem ReadFrom_short_buffer:
  assumes "ReadDatagram L (rx (conn c)) = (Inr (addr, payload), r')"
    and "length p < length payload"
  shows "ReadFrom L lg c p = (Inl ErrShortBuffer, p, set_rx c r', lg)"
  using assms by (rule ReadFrom_oversized)

theorem ReadFrom_short_buffer_witness:
  "ReadDatagram stdnet ([0, 7, 0, 100, 1, 1, 2, 3, 4, 0, 5] @ replicate 100 7 @ frame_ok)
   = (Inr (''1.2.3.4:5'', replicate 100 7), frame_ok)
   \<and> length (replicate 50 (0 :: byte)) < length (replicate 100 (7 :: byte))
   \<and> ReadFrom stdnet []
        \<lparr>conn = \<lparr>rx = [0, 7, 0, 100, 1, 1, 2, 3, 4, 0, 5] @ replicate 100 7 @ frame_ok,
                  tx = ()\<rparr>\<rparr>
        (replicate 50 0)
       = (Inl ErrShortBuffer, replicate 50 0, \<lparr>conn = \<lparr>rx = frame_ok, tx = ()\<rparr>\<rparr>, [])"
proof -
  let ?r = "[0, 7, 0, 100, 1, 1, 2, 3, 4, 0, 5] @ replicate 100 7 @ frame_ok"
  have dec: "fst (decodeAddress stdnet [1, 1, 2, 3, 4, 0, 5]) = Inr ''1.2.3.4:5''"
    by (simp add: decodeAddress_def ReadFull_def IPv4len_def stdnet_def std_IP_String_def
        To4_def char_of_def Sprint_def JoinHostPort_def Uint16_def FormatUint.simps
        bit_Suc_0_iff)
  have 1: "ReadDatagram stdnet ?r = (Inr (''1.2.3.4:5'', replicate 100 7), frame_ok)"
    using ReadDatagram_frame [of "[1, 1, 2, 3, 4, 0, 5]" stdnet "''1.2.3.4:5''" 100
        "replicate 100 7 @ frame_ok", OF _ _ dec]
    by (simp add: PutUint16_def)
  have 2: "ReadDatagram stdnet (rx (conn \<lparr>conn = \<lparr>rx = ?r, tx = ()\<rparr>\<rparr>))
           = (Inr (''1.2.3.4:5'', replicate 100 7), frame_ok)"
    using 1 by simp
  have 3: "length (replicate 50 (0 :: byte)) < length (replicate 100 (7 :: byte))"
    by simp
  show ?thesis
    using ReadFrom_short_buffer [OF 2 3, of "[]"] 1
    by (simp add: set_rx_def)
qed

subsection \<open>C5: an unknown address type\<close>

text \<open>
  Claim C5: when the first byte of the input is none of the tags 1, 3 and 4,
  \<open>decodeAddress\<close> returns an error, having read that one byte only; and \<open>ReadDatagram\<close>
  on a frame whose address starts with such a byte fails with this error wrapped as an
  address-decode error. The functions are total, so they neither panic nor loop.
\<close>

theorem decodeAddress_unknown_tag:
  assumes "b \<noteq> 1" and "b \<noteq> 3" and "b \<noteq> 4"
  shows "decodeAddress L (b # r) = (Inl (UnknownAddressType b), r)
    \<and> (uint (Uint16 [h0, h1]) = int (length (b # a))
        \<longrightarrow> ReadDatagram L ([h0, h1, h2, h3] @ (b # a) @ rest)
            = (Inl (DecodeAddress (UnknownAddressType b)), rest))"
proof -
  have d: "\<And>r. decodeAddress L (b # r) = (Inl (UnknownAddressType b), r)"
    using assms by (simp add: decodeAddress_def ReadFull_def)
  have "ReadDatagram L ([h0, h1, h2, h3] @ (b # a) @ rest)
        = (Inl (DecodeAddress (UnknownAddressType b)), rest)"
    if h: "uint (Uint16 [h0, h1]) = int (length (b # a))"
  proof -
    have "uint (Uint16 [h0, h1]) \<le> 65535" "uint (Uint16 [h2, h3]) \<le> 65535"
      by (rule uint_Uint16_bound)+
    moreover from h have "nat (uint (Uint16 [h0, h1])) = Suc (length a)"
      by simp
    ultimately show ?thesis
      using h by (simp add: ReadDatagram_def ReadFull_def Let_def maxUoTPayload_def d)
  qed
  with d show ?thesis by blast
qed

theorem decodeAddress_unknown_tag_witness:
  "(2 :: byte) \<noteq> 1 \<and> (2 :: byte) \<noteq> 3 \<and> (2 :: byte) \<noteq> 4
   \<and> decodeAddress stdnet [2, 0, 0] = (Inl (UnknownAddressType 2), [0, 0])
   \<and> uint (Uint16 [0, 3]) = int (length [2, 0, 0 :: byte])
   \<and> ReadDatagram stdnet ([0, 3, 0, 1] @ [2, 0, 0] @ [7, 8])
       = (Inl (DecodeAddress (UnknownAddressType 2)), [7, 8])"
proof -
  have h: "uint (Uint16 [0, 3]) = int (length [2, 0, 0 :: byte])"
    by (simp add: Uint16_def)
  show ?thesis
    using decodeAddress_unknown_tag [of 2 stdnet "[0, 0]" 0 3 "[0, 0]" 0 1 "[7, 8]"] h
    by simp
qed

subsection \<open>C6: the length of a domain name\<close>

text \<open>
  Claim C6: for a host that is not an IP literal, \<open>encodeAddress\<close> succeeds when the
  name has at most 255 bytes (255 included) and fails with the domain-too-long error
  when it has 256 bytes or more; the encoding is the tag 3, the length byte, the bytes of
  the name and the port in two bytes, high byte first.
\<close>

theorem encodeAddress_domain:
  assumes "SplitHostPort L rawAddr = Inr (host, portStr)"
    and "LookupPort L ''udp'' portStr = Inr port"
    and "ParseIP L host = None"
  shows "(length host \<le> 255 \<longrightarrow>
            encodeAddress L rawAddr
            = Inr ([0x03, of_nat (length host)] @ bytes_of_string host
                   @ [of_int (port div 256), of_int port]))
       \<and> (255 < length host \<longrightarrow> encodeAddress L rawAddr = Inl DomainTooLong)"
  using assms by (simp add: encodeAddress_def PutUint16_bytes)

theorem encodeAddress_domain_witness:
  "SplitHostPort stdnet (replicate 255 CHR ''a'' @ '':53'') = Inr (replicate 255 CHR ''a'', ''53'')
   \<and> SplitHostPort stdnet (replicate 256 CHR ''a'' @ '':53'') = Inr (replicate 256 CHR ''a'', ''53'')
   \<and> LookupPort stdnet ''udp'' ''53'' = Inr 53
   \<and> ParseIP stdnet (replicate 255 CHR ''a'') = None
   \<and> ParseIP stdnet (replicate 256 CHR ''a'') = None
   \<and> encodeAddress stdnet (replicate 255 CHR ''a'' @ '':53'')
       = Inr ([3, 255] @ replicate 255 97 @ [0, 53])
   \<and> encodeAddress stdnet (replicate 256 CHR ''a'' @ '':53'') = Inl DomainTooLong"
proof -
  have s: "SplitHostPort stdnet (replicate n CHR ''a'' @ '':53'') = Inr (replicate n CHR ''a'', ''53'')"
    for n
    using std_SplitHostPort_plain [of "replicate n CHR ''a''" "''53''"]
    by (simp add: stdnet_def set_replicate_conv_if)
  have l: "LookupPort stdnet ''udp'' ''53'' = Inr 53"
    by (simp add: stdnet_def std_LookupPort_53)
  have p: "ParseIP stdnet (replicate n CHR ''a'') = None" for n
    by (simp add: stdnet_def std_ParseIP_no_dot set_replicate_conv_if)
  show ?thesis
    using encodeAddress_domain [OF s [of 255] l p [of 255]]
      encodeAddress_domain [OF s [of 256] l p [of 256]] s l p
    by (simp add: bytes_of_string_def)
qed

subsection \<open>C7: an address length of zero\<close>

text \<open>
  Claim C7: when the header of the frame declares the address length 0, \<open>ReadDatagram\<close>
  fails with the invalid-address-length error and has read the four bytes of the header
  only.
\<close>

theorem ReadDatagram_zero_address_length:
  assumes "4 \<le> length r" and "Uint16 (take 2 r) = 0"
  shows "ReadDatagram L r = (Inl (InvalidAddressLength 0), drop 4 r)"
  using assms by (simp add: ReadDatagram_def ReadFull_def Let_def)

theorem ReadDatagram_zero_address_length_witness:
  "4 \<le> length [0, 0, 0, 3, 9, 9, 9 :: byte]
   \<and> Uint16 (take 2 [0, 0, 0, 3, 9, 9, 9]) = 0
   \<and> ReadDatagram stdnet [0, 0, 0, 3, 9, 9, 9] = (Inl (InvalidAddressLength 0), [9, 9, 9])"
  using ReadDatagram_zero_address_length [of "[0, 0, 0, 3, 9, 9, 9]" stdnet]
  by (simp add: Uint16_def)

subsection \<open>C8: the result of WriteTo\<close>

text \<open>
  Claim C8: a successful \<open>WriteTo\<close> to a destination that is not \<^verbatim>\<open>nil\<close> returns the
  length of the payload (not the number of bytes put on the stream), and \<open>WriteTo\<close> with
  a \<^verbatim>\<open>nil\<close> destination fails with the nil-address error and leaves the connection
  as it was, without a call of the stream's \<^verbatim>\<open>Write\<close>.
\<close>

theorem WriteTo_result:
  "(WriteTo L wr c p (Some a) = (Inr n, c') \<longrightarrow> n = length p)
   \<and> WriteTo L wr c p None = (Inl AddressIsNil, c)"
  by (auto simp: WriteTo_def split: prod.splits option.splits)

theorem WriteTo_result_witness:
  "WriteTo stdnet buffer_Write \<lparr>conn = \<lparr>rx = [], tx = []\<rparr>\<rparr> [1, 2, 3]
     (Some ''93.184.216.34:443'')
   = (Inr 3, \<lparr>conn = \<lparr>rx = [], tx = [0, 7, 0, 3, 1, 93, 184, 216, 34, 1, 187, 1, 2, 3]\<rparr>\<rparr>)
   \<and> (3 :: nat) = length [1, 2, 3 :: byte]
   \<and> WriteTo stdnet buffer_Write \<lparr>conn = \<lparr>rx = [], tx = []\<rparr>\<rparr> [1, 2, 3] None
     = (Inl AddressIsNil, \<lparr>conn = \<lparr>rx = [], tx = []\<rparr>\<rparr>)"
proof -
  let ?c = "\<lparr>conn = \<lparr>rx = [], tx = [] :: byte list\<rparr>\<rparr>"
  let ?c' = "\<lparr>conn = \<lparr>rx = [], tx = [0, 7, 0, 3, 1, 93, 184, 216, 34, 1, 187, 1, 2, 3 :: byte]\<rparr>\<rparr>"
  have "WriteTo stdnet buffer_Write ?c [1, 2, 3] (Some ''93.184.216.34:443'') = (Inr 3, ?c')"
    using WriteDatagram_buffer [OF stdnet_example_encodeAddress, of "[1, 2, 3]" "[]"]
    by (simp add: WriteTo_def set_tx_def PutUint16_def)
  then show ?thesis
    using WriteTo_result [of stdnet buffer_Write ?c "[1, 2, 3]" "''93.184.216.34:443''" 3 ?c']
    by simp
qed

subsection \<open>C9: the size check comes before the resolution of the address\<close>

text \<open>
  Claim C9: when the payload of a frame is larger than the caller's buffer, \<open>ReadFrom\<close>
  returns the short-buffer error also when the address of this frame does not resolve:
  the frame is not discarded under the skip-and-continue policy, nothing is logged and
  no further frame is read.
\<close>

theorem ReadFrom_short_buffer_before_resolve:
  assumes "ReadDatagram L (rx (conn c)) = (Inr (addr, payload), r')"
    and "length p < length payload"
    and "ResolveUDPAddr L ''udp'' addr = Inl e"
  shows "ReadFrom L lg c p = (Inl ErrShortBuffer, p, set_rx c r', lg)"
  using assms(1,2) by (rule ReadFrom_oversized)

theorem ReadFrom_short_buffer_before_resolve_witness:
  "ReadDatagram stdnet (frame_invalid @ frame_ok) = (Inr (''x.invalid:1'', [7, 8, 9]), frame_ok)
   \<and> ResolveUDPAddr stdnet ''udp'' ''x.invalid:1'' = Inl (NetError ''no such host'')
   \<and> ReadFrom stdnet [] \<lparr>conn = \<lparr>rx = frame_invalid @ frame_ok, tx = ()\<rparr>\<rparr> [0]
       = (Inl ErrShortBuffer, [0], \<lparr>conn = \<lparr>rx = frame_ok, tx = ()\<rparr>\<rparr>, [])"
proof -
  let ?c = "\<lparr>conn = \<lparr>rx = frame_invalid @ frame_ok, tx = ()\<rparr>\<rparr>"
  have 1: "ReadDatagram stdnet (rx (conn ?c)) = (Inr (''x.invalid:1'', [7, 8, 9]), frame_ok)"
    by (simp add: ReadDatagram_frame_invalid)
  have 2: "length [0 :: byte] < length [7, 8, 9 :: byte]"
    by simp
  show ?thesis
    using ReadFrom_short_buffer_before_resolve [OF 1 2 stdnet_Resolve_invalid, of "[]"] 1
    by (simp add: set_rx_def stdnet_Resolve_invalid)
qed

subsection \<open>C10: the payload-length check of ReadDatagram never fails\<close>

text \<open>
  Claim C10: the payload length is read from 16 bits, so it lies between 0 and 65535 and
  within the bound \<open>maxUoTPayload\<close> = 65536. Hence \<open>ReadDatagram\<close> never returns the
  invalid-payload-length error, and the only invalid address length that it reports is 0.
\<close>

theorem ReadDatagram_length_errors:
  "0 \<le> uint (Uint16 b) \<and> uint (Uint16 b) \<le> 65535 \<and> 65535 < maxUoTPayload
   \<and> fst (ReadDatagram L r) \<noteq> Inl (InvalidPayloadLength n)
   \<and> (fst (ReadDatagram L r) = Inl (InvalidAddressLength n) \<longrightarrow> n = 0)"
proof -
  have "fst (ReadDatagram L r) \<noteq> Inl (InvalidPayloadLength n)
        \<and> (fst (ReadDatagram L r) = Inl (InvalidAddressLength n) \<longrightarrow> n = 0)"
    using uint_Uint16_bound [of "drop 2 (take 4 r)"] uint_Uint16_bound [of "take 2 (take 4 r)"]
    by (auto simp: ReadDatagram_def Let_def maxUoTPayload_def ReadFull_Inr
        split: prod.splits sum.splits if_splits dest!: ReadFull_error)
  then show ?thesis
    using uint_Uint16_bound [of b] by (simp add: maxUoTPayload_def)
qed

theorem ReadDatagram_length_errors_witness:
  "fst (ReadDatagram stdnet [0, 0, 0, 0]) = Inl (InvalidAddressLength 0)
   \<and> fst (ReadDatagram stdnet [0, 0, 0, 0]) \<noteq> Inl (InvalidPayloadLength 0)"
  using ReadDatagram_length_errors [of "[]" stdnet "[0, 0, 0, 0]" 0]
  by (simp add: ReadDatagram_def ReadFull_def Uint16_def)

end
